theory Spec2Isabelle
  imports Main
begin

text \<open>
  A model of the user service (user.service.ts) and of the login handler of its
  controller. Every operation takes the store and returns its result with the store
  afterwards; an error thrown is a left value. The document store, the hashing primitive
  and the token service are collaborators: the store is modelled with the operations the
  service calls, the other two are parameters.
\<close>

section \<open>The user document and the store\<close>

text \<open>
  The persisted user record, as the service reads and writes it: \<open>username\<close>,
  \<open>firstName\<close>, \<open>lastName\<close> and \<open>password\<close> are the fields the service assigns
  (user.service.ts, lines 133-135 and 202); \<open>acc_id\<close> is the identifier
  \<open>findById\<close> looks up.
\<close>

record account =
  acc_id :: string
  username :: string
  firstName :: string
  lastName :: string
  password :: string

text \<open>
  The collection behind \<open>userModel\<close>, in insertion order, and the number of
  \<open>save()\<close> requests the service has issued (what a write-counting store counts).
\<close>

record store =
  accounts :: "account list"
  saveCalls :: nat

text \<open>Failures of the store itself, as opposed to the errors the service raises.\<close>

datatype store_fault = DuplicateKey | ValidationFailed string | Unavailable string

text \<open>
  What the service cannot control in one request: whether a query or a save is failed by
  the store for a reason of its own, the identifier of a newly constructed document and
  the salt of a newly computed hash.
\<close>

record env =
  query_fault :: "store_fault option"
  save_fault :: "store_fault option"
  fresh_id :: string
  fresh_salt :: string

text \<open>
  The password hashing primitive is a library: it is a parameter of the model.
  \<open>hashPw salt plaintext\<close> is the salted hash, \<open>comparePw candidate hash\<close> the comparison
  of a candidate plaintext with a stored hash.
\<close>

record scheme =
  hashPw :: "string \<Rightarrow> string \<Rightarrow> string"
  comparePw :: "string \<Rightarrow> string \<Rightarrow> bool"

subsection \<open>Documents and modification tracking\<close>

datatype path = Username | FirstName | LastName | Password

text \<open>
  A document in memory (the type \<open>User\<close> of the service): the field values, whether it has
  never been saved, and the paths marked as modified since it was loaded.
\<close>

record user =
  doc :: account
  isNew :: bool
  modifiedPaths :: "path set"

fun get_path :: "path \<Rightarrow> account \<Rightarrow> string" where
  "get_path Username a = username a"
| "get_path FirstName a = firstName a"
| "get_path LastName a = lastName a"
| "get_path Password a = password a"

fun put_path :: "path \<Rightarrow> string \<Rightarrow> account \<Rightarrow> account" where
  "put_path Username v a = a\<lparr>username := v\<rparr>"
| "put_path FirstName v a = a\<lparr>firstName := v\<rparr>"
| "put_path LastName v a = a\<lparr>lastName := v\<rparr>"
| "put_path Password v a = a\<lparr>password := v\<rparr>"

text \<open>A document as a query returns it: nothing is marked as modified.\<close>

definition hydrate :: "account \<Rightarrow> user" where
  "hydrate a = \<lparr>doc = a, isNew = False, modifiedPaths = {}\<rparr>"

text \<open>
  The document library's assignment \<open>user.p = v\<close> (mongoose, \<open>Document.set\<close>). The value
  is stored; the path is marked as modified when the document is new, when the path is
  marked already, or when the assigned value differs from the value the document holds
  (the library compares the two before it marks the path). Assigning the value the
  document already holds leaves a loaded document unmarked. This is the tracking that
  \<open>updateProfile\<close> reads through \<open>isModified\<close>: its result starts as
  \<open>UpdateUserResult(false)\<close> and becomes true only "if the user was updated at all"
  (user.service.ts, lines 138-147).
\<close>

definition shouldModify :: "user \<Rightarrow> path \<Rightarrow> string \<Rightarrow> bool" where
  "shouldModify u p v = (isNew u \<or> p \<in> modifiedPaths u \<or> v \<noteq> get_path p (doc u))"

definition set_path :: "path \<Rightarrow> string \<Rightarrow> user \<Rightarrow> user" where
  "set_path p v u =
     u\<lparr>doc := put_path p v (doc u),
       modifiedPaths := (if shouldModify u p v then insert p (modifiedPaths u)
                         else modifiedPaths u)\<rparr>"

text \<open>\<open>user.isModified()\<close> without arguments: some path is marked.\<close>

definition isModified :: "user \<Rightarrow> bool" where
  "isModified u = (modifiedPaths u \<noteq> {})"

text \<open>
  Modelled from the spec: the user schema (user.schema.ts) is not among the sources; it
  declares the password members of the account object, which the spec gives as
  "a password-hash compare/set pair on the account object". The set: assigning a
  plaintext to \<open>password\<close> makes the document hold "a freshly computed hash" of it
  ("stored as a salted hash, never the plaintext").
\<close>

definition set_password :: "env \<Rightarrow> scheme \<Rightarrow> string \<Rightarrow> user \<Rightarrow> user" where
  "set_password e sch v u = set_path Password (hashPw sch (fresh_salt e) v) u"

text \<open>
  Modelled from the spec: the compare of the same pair, \<open>user.comparePassword\<close>: the
  supplied plaintext is compared "against the stored hash using the store's
  password-hash comparison primitive".
\<close>

definition comparePassword :: "scheme \<Rightarrow> user \<Rightarrow> string \<Rightarrow> bool" where
  "comparePassword sch u candidate = comparePw sch candidate (password (doc u))"

subsection \<open>Queries and save\<close>

text \<open>\<open>userModel.findById(id).exec()\<close>: the document with that identifier, or null.\<close>

definition findById :: "env \<Rightarrow> string \<Rightarrow> store \<Rightarrow> store_fault + user option" where
  "findById e i s =
     (case query_fault e of
        Some f \<Rightarrow> Inl f
      | None \<Rightarrow> Inr (map_option hydrate (find (\<lambda>a. acc_id a = i) (accounts s))))"

text \<open>\<open>userModel.find({ username: u }).limit(1).exec()\<close>: at most one match, the first.\<close>

definition find_username :: "env \<Rightarrow> string \<Rightarrow> store \<Rightarrow> store_fault + user list" where
  "find_username e u s =
     (case query_fault e of
        Some f \<Rightarrow> Inl f
      | None \<Rightarrow> Inr (map hydrate (take 1 (filter (\<lambda>a. username a = u) (accounts s)))))"

text \<open>
  \<open>new this.userModel(dto)\<close>: a new document with a fresh identifier and the fields of the
  dto assigned, the password through its set.
\<close>

record CreateDto =
  c_username :: string
  c_password :: string
  c_firstName :: string
  c_lastName :: string

definition new_user :: "env \<Rightarrow> scheme \<Rightarrow> CreateDto \<Rightarrow> user" where
  "new_user e sch dto =
     set_path LastName (c_lastName dto)
       (set_path FirstName (c_firstName dto)
         (set_password e sch (c_password dto)
           (set_path Username (c_username dto)
             \<lparr>doc = \<lparr>acc_id = fresh_id e, username = [], firstName = [], lastName = [],
                     password = []\<rparr>,
              isNew = True, modifiedPaths = {}\<rparr>)))"

text \<open>
  \<open>user.save()\<close>. Every call is counted. The store may fail it for a reason of its own.
  A new document is inserted under the uniqueness constraints of the collection; a loaded
  document replaces the stored one with its identifier ("save-if-present"), the username
  being checked against the other accounts when it was modified.

  Modelled from the spec: the unique index on \<open>username\<close> is declared by the user schema,
  which is not among the sources; the spec gives it as "username: unique across all
  accounts (enforced by the store)" and the insert as "insert-with-uniqueness-constraint".
\<close>

definition save :: "env \<Rightarrow> user \<Rightarrow> store \<Rightarrow> (store_fault + user) \<times> store" where
  "save e u s =
     (let s1 = s\<lparr>saveCalls := Suc (saveCalls s)\<rparr> in
      case save_fault e of
        Some f \<Rightarrow> (Inl f, s1)
      | None \<Rightarrow>
          if isNew u then
            (if \<exists>a \<in> set (accounts s).
                  acc_id a = acc_id (doc u) \<or> username a = username (doc u)
             then (Inl DuplicateKey, s1)
             else (Inr (hydrate (doc u)), s1\<lparr>accounts := accounts s @ [doc u]\<rparr>))
          else
            (if Username \<in> modifiedPaths u \<and>
                (\<exists>a \<in> set (accounts s).
                   acc_id a \<noteq> acc_id (doc u) \<and> username a = username (doc u))
             then (Inl DuplicateKey, s1)
             else (Inr (hydrate (doc u)),
                   s1\<lparr>accounts :=
                        map (\<lambda>a. if acc_id a = acc_id (doc u) then doc u else a)
                          (accounts s)\<rparr>)))"

section \<open>The user service\<close>

text \<open>
  The errors of the service are \<open>Error\<close> objects told apart by their message. A failure of
  the store that the service does not catch propagates as it is.
\<close>

datatype error =
    NotFound
  | AlreadyExists
  | UserNotFound
  | InvalidCredentials
  | StoreError store_fault

fun fault_message :: "store_fault \<Rightarrow> string" where
  "fault_message DuplicateKey = ''E11000 duplicate key error''"
| "fault_message (ValidationFailed m) = m"
| "fault_message (Unavailable m) = m"

fun message :: "error \<Rightarrow> string" where
  "message NotFound = ''User does not exist.''"
| "message AlreadyExists = ''User already exists.''"
| "message UserNotFound = ''User not found.''"
| "message InvalidCredentials = ''Incorrect password.''"
| "message (StoreError f) = fault_message f"

text \<open>The errors the service itself raises.\<close>

fun is_domain_error :: "error \<Rightarrow> bool" where
  "is_domain_error (StoreError f) = False"
| "is_domain_error e = True"

record ExistingUserResult =
  existing :: bool

record UpdateUserResult =
  updated :: bool

record AuthorizeDto =
  a_username :: string
  a_password :: string

record UpdateProfileDto =
  p_username :: string
  p_firstName :: string
  p_lastName :: string

record ChangePasswordDto =
  cp_password :: string
  cp_newPassword :: string

definition findByUserId :: "env \<Rightarrow> string \<Rightarrow> store \<Rightarrow> (error + user) \<times> store" where
  "findByUserId e i s =
     (case findById e i s of
        Inl f \<Rightarrow> (Inl (StoreError f), s)
      | Inr None \<Rightarrow> (Inl NotFound, s)
      | Inr (Some u) \<Rightarrow> (Inr u, s))"

definition create :: "env \<Rightarrow> scheme \<Rightarrow> CreateDto \<Rightarrow> store \<Rightarrow> (error + user) \<times> store" where
  "create e sch dto s =
     (let query = new_user e sch dto in
      case save e query s of
        (Inr u, s1) \<Rightarrow> (Inr u, s1)
      | (Inl err, s1) \<Rightarrow> (Inl AlreadyExists, s1))"

definition verify :: "env \<Rightarrow> scheme \<Rightarrow> AuthorizeDto \<Rightarrow> store \<Rightarrow> (error + user) \<times> store" where
  "verify e sch dto s =
     (case find_username e (a_username dto) s of
        Inl f \<Rightarrow> (Inl (StoreError f), s)
      | Inr users \<Rightarrow>
          (case users of
             [] \<Rightarrow> (Inl UserNotFound, s)
           | u # rest \<Rightarrow>
               let verified = comparePassword sch u (a_password dto) in
               if verified = False then (Inl InvalidCredentials, s) else (Inr u, s)))"

definition updateProfile ::
  "env \<Rightarrow> string \<Rightarrow> UpdateProfileDto \<Rightarrow> store \<Rightarrow> (error + UpdateUserResult) \<times> store" where
  "updateProfile e i dto s =
     (case findByUserId e i s of
        (Inl err, s1) \<Rightarrow> (Inl err, s1)
      | (Inr u0, s1) \<Rightarrow>
          let u1 = set_path Username (p_username dto) u0;
              u2 = set_path FirstName (p_firstName dto) u1;
              u3 = set_path LastName (p_lastName dto) u2;
              result = \<lparr>updated = False\<rparr>;
              upd = isModified u3
          in if upd = True then
               (case save e u3 s1 of
                  (Inl f, s2) \<Rightarrow> (Inl (StoreError f), s2)
                | (Inr u4, s2) \<Rightarrow> (Inr (result\<lparr>updated := True\<rparr>), s2))
             else (Inr result, s1))"

definition checkIfExists ::
  "env \<Rightarrow> string \<Rightarrow> store \<Rightarrow> (error + ExistingUserResult) \<times> store" where
  "checkIfExists e u s =
     (case find_username e u s of
        Inl f \<Rightarrow> (Inl (StoreError f), s)
      | Inr users \<Rightarrow>
          let result = \<lparr>existing = False\<rparr>
          in if length users > 0 then (Inr (result\<lparr>existing := True\<rparr>), s)
             else (Inr result, s))"

definition changePassword ::
  "env \<Rightarrow> scheme \<Rightarrow> string \<Rightarrow> ChangePasswordDto \<Rightarrow> store
     \<Rightarrow> (error + UpdateUserResult) \<times> store" where
  "changePassword e sch i dto s =
     (case findByUserId e i s of
        (Inl err, s1) \<Rightarrow> (Inl err, s1)
      | (Inr u0, s1) \<Rightarrow>
          let verified = comparePassword sch u0 (cp_password dto) in
          if verified = False then (Inl InvalidCredentials, s1)
          else
            (let u1 = set_password e sch (cp_newPassword dto) u0 in
             case save e u1 s1 of
               (Inl f, s2) \<Rightarrow> (Inl (StoreError f), s2)
             | (Inr u2, s2) \<Rightarrow> (Inr \<lparr>updated = True\<rparr>, s2)))"

text \<open>
  Whether a profile dto differs from an account in one of the three fields
  \<open>updateProfile\<close> assigns.
\<close>

definition profile_differs :: "UpdateProfileDto \<Rightarrow> account \<Rightarrow> bool" where
  "profile_differs dto a =
     (p_username dto \<noteq> username a \<or> p_firstName dto \<noteq> firstName a \<or>
      p_lastName dto \<noteq> lastName a)"

section \<open>The HTTP boundary\<close>

text \<open>
  What a handler of the controller gives the framework: the decorated status code with
  the body, or a \<open>BadRequestException\<close> carrying a message (status 400).
\<close>

datatype 'a response = Response nat 'a | BadRequestException string

fun status :: "'a response \<Rightarrow> nat" where
  "status (Response c b) = c"
| "status (BadRequestException m) = 400"

type_synonym AuthTokenResult = string

text \<open>
  \<open>AuthContoller.authorize\<close>. The token service (\<open>authService.create\<close>) is a collaborator
  outside the sources: it is the parameter \<open>createToken\<close>, which returns the token or
  fails with the message of the error it throws.
\<close>

definition authorize ::
  "(user \<Rightarrow> string + AuthTokenResult) \<Rightarrow> env \<Rightarrow> scheme \<Rightarrow> AuthorizeDto \<Rightarrow> store
     \<Rightarrow> AuthTokenResult response \<times> store" where
  "authorize createToken e sch dto s =
     (case verify e sch dto s of
        (Inl err, s1) \<Rightarrow> (BadRequestException (message err), s1)
      | (Inr u, s1) \<Rightarrow>
          (case createToken u of
             Inl m \<Rightarrow> (BadRequestException m, s1)
           | Inr token \<Rightarrow> (Response 200 token, s1)))"

section \<open>Reachable stores\<close>

text \<open>
  The stores the service can produce from an empty collection, by any sequence of the
  three mutating operations, under any environment and any input.
\<close>

inductive reachable :: "scheme \<Rightarrow> store \<Rightarrow> bool" for sch :: scheme where
  initial: "reachable sch \<lparr>accounts = [], saveCalls = 0\<rparr>"
| after_create: "reachable sch s \<Longrightarrow> reachable sch (snd (create e sch dto s))"
| after_updateProfile:
    "reachable sch s \<Longrightarrow> reachable sch (snd (updateProfile e i pdto s))"
| after_changePassword:
    "reachable sch s \<Longrightarrow> reachable sch (snd (changePassword e sch i cdto s))"

section \<open>A concrete instance\<close>

text \<open>
  A small scheme, environment and store on which the theorems below are instantiated.
  The hash of the scheme writes the salt in front of the plaintext, between two marks,
  and the comparison recomputes the hash with the salt it reads from the stored one.
\<close>

definition demo_scheme :: scheme where
  "demo_scheme =
     \<lparr>hashPw = (\<lambda>salt plain. ''$'' @ salt @ ''$'' @ plain),
      comparePw = (\<lambda>candidate h.
        h = ''$'' @ takeWhile (\<lambda>c. c \<noteq> CHR ''$'') (tl h) @ ''$'' @ candidate)\<rparr>"

definition demo_env :: env where
  "demo_env = \<lparr>query_fault = None, save_fault = None, fresh_id = ''2'', fresh_salt = ''s2''\<rparr>"

definition alice :: account where
  "alice = \<lparr>acc_id = ''1'', username = ''alice'', firstName = ''Alice'',
            lastName = ''Smith'', password = ''$s1$secret''\<rparr>"

definition demo_store :: store where
  "demo_store = \<lparr>accounts = [alice], saveCalls = 0\<rparr>"

definition demo_token :: "user \<Rightarrow> string + AuthTokenResult" where
  "demo_token u = Inr (''token-'' @ acc_id (doc u))"

section \<open>Auxiliary facts\<close>

subsection \<open>Lists\<close>

lemma take1_filter_find:
  "take 1 (filter P xs) = (case find P xs of None \<Rightarrow> [] | Some a \<Rightarrow> [a])"
  by (induction xs) simp_all

lemma find_Some_mem: "find P xs = Some a \<Longrightarrow> a \<in> set xs \<and> P a"
  by (induction xs) (auto split: if_splits)

lemma find_None_iff_Bex: "(find P xs = None) = (\<not> (\<exists>a \<in> set xs. P a))"
  by (induction xs) auto

lemma find_map_replace:
  "find P xs = Some a \<Longrightarrow> P a' \<Longrightarrow>
   find P (map (\<lambda>b. if P b then a' else b) xs) = Some a'"
  by (induction xs) (auto split: if_splits)

subsection \<open>Queries\<close>

lemma findByUserId_found:
  "query_fault e = None \<Longrightarrow> find (\<lambda>a. acc_id a = i) (accounts s) = Some a \<Longrightarrow>
   findByUserId e i s = (Inr (hydrate a), s)"
  by (simp add: findByUserId_def findById_def)

lemma findByUserId_Inr:
  "findByUserId e i s = (Inr u, s') \<Longrightarrow> s' = s \<and> (\<exists>a \<in> set (accounts s). u = hydrate a)"
  by (auto simp add: findByUserId_def findById_def split: option.splits sum.splits
        dest: find_Some_mem)

lemma find_username_first:
  "query_fault e = None \<Longrightarrow>
   find_username e u s =
     Inr (case find (\<lambda>a. username a = u) (accounts s) of
            None \<Rightarrow> [] | Some a \<Rightarrow> [hydrate a])"
  unfolding find_username_def take1_filter_find by (simp split: option.splits)

lemma verify_store: "snd (verify e sch dto s) = s"
  by (simp add: verify_def Let_def split: sum.splits list.splits)

subsection \<open>Assignments and modification tracking\<close>

lemma set_path_same: "get_path p a = v \<Longrightarrow> set_path p v (hydrate a) = hydrate a"
  by (cases p) (simp_all add: set_path_def shouldModify_def hydrate_def)

lemma assigned_profile_modified:
  "isModified (set_path LastName l (set_path FirstName f (set_path Username n (hydrate a))))
     = (n \<noteq> username a \<or> f \<noteq> firstName a \<or> l \<noteq> lastName a)"
  by (auto simp add: isModified_def set_path_def shouldModify_def hydrate_def)

lemma new_user_facts:
  "isNew (new_user e sch dto)"
  "acc_id (doc (new_user e sch dto)) = fresh_id e"
  "username (doc (new_user e sch dto)) = c_username dto"
  "password (doc (new_user e sch dto)) = hashPw sch (fresh_salt e) (c_password dto)"
  by (simp_all add: new_user_def set_password_def set_path_def)

subsection \<open>Save\<close>

lemma save_counts: "saveCalls (snd (save e u s)) = Suc (saveCalls s)"
  by (simp add: save_def Let_def split: option.splits)

lemma save_accounts:
  "b \<in> set (accounts (snd (save e u s))) \<Longrightarrow> b \<in> set (accounts s) \<or> b = doc u"
  by (auto simp add: save_def Let_def split: option.splits if_splits)

lemma save_loaded:
  "save_fault e = None \<Longrightarrow> \<not> isNew u \<Longrightarrow> Username \<notin> modifiedPaths u \<Longrightarrow>
   save e u s =
     (Inr (hydrate (doc u)),
      s\<lparr>saveCalls := Suc (saveCalls s),
        accounts := map (\<lambda>b. if acc_id b = acc_id (doc u) then doc u else b) (accounts s)\<rparr>)"
  by (simp add: save_def Let_def)

subsection \<open>The two paths of updateProfile\<close>

lemma updateProfile_unchanged:
  assumes "query_fault e = None"
    and "find (\<lambda>a. acc_id a = i) (accounts s) = Some a"
    and "p_username dto = username a" and "p_firstName dto = firstName a"
    and "p_lastName dto = lastName a"
  shows "updateProfile e i dto s = (Inr \<lparr>updated = False\<rparr>, s)"
  using assms
  by (simp add: updateProfile_def findByUserId_found set_path_same isModified_def Let_def)
     (simp add: hydrate_def)

lemma updateProfile_changed:
  assumes "query_fault e = None"
    and "find (\<lambda>a. acc_id a = i) (accounts s) = Some a"
    and "profile_differs dto a"
  shows "updateProfile e i dto s =
     (case save e (set_path LastName (p_lastName dto) (set_path FirstName (p_firstName dto)
              (set_path Username (p_username dto) (hydrate a)))) s of
        (Inl f, s2) \<Rightarrow> (Inl (StoreError f), s2)
      | (Inr u4, s2) \<Rightarrow> (Inr \<lparr>updated = True\<rparr>, s2))"
  using assms
  by (simp add: updateProfile_def findByUserId_found Let_def assigned_profile_modified
       profile_differs_def split: prod.splits sum.splits)

subsection \<open>Stored passwords across the mutating operations\<close>

lemma create_passwords:
  assumes "\<forall>a \<in> set (accounts s). P (password a)"
    and "P (hashPw sch (fresh_salt e) (c_password dto))"
  shows "\<forall>a \<in> set (accounts (snd (create e sch dto s))). P (password a)"
proof
  fix b assume "b \<in> set (accounts (snd (create e sch dto s)))"
  then have "b \<in> set (accounts (snd (save e (new_user e sch dto) s)))"
    by (simp add: create_def split: prod.splits sum.splits)
  then have "b \<in> set (accounts s) \<or> b = doc (new_user e sch dto)"
    by (rule save_accounts)
  with assms show "P (password b)"
    by (auto simp add: new_user_facts)
qed

lemma updateProfile_passwords:
  assumes "\<forall>a \<in> set (accounts s). P (password a)"
  shows "\<forall>a \<in> set (accounts (snd (updateProfile e i dto s))). P (password a)"
proof (cases "findByUserId e i s")
  case (Pair r s1)
  show ?thesis
  proof (cases r)
    case (Inl err)
    with Pair assms show ?thesis
      by (auto simp add: updateProfile_def findByUserId_def split: sum.splits option.splits)
  next
    case (Inr u0)
    with Pair obtain a where a: "s1 = s" "a \<in> set (accounts s)" "u0 = hydrate a"
      using findByUserId_Inr by blast
    let ?u = "set_path LastName (p_lastName dto) (set_path FirstName (p_firstName dto)
                (set_path Username (p_username dto) u0))"
    have pw: "password (doc ?u) = password a"
      by (simp add: set_path_def a hydrate_def)
    show ?thesis
    proof
      fix b assume "b \<in> set (accounts (snd (updateProfile e i dto s)))"
      then have "b \<in> set (accounts s) \<or> b \<in> set (accounts (snd (save e ?u s)))"
        using Pair Inr a(1)
        by (auto simp add: updateProfile_def Let_def split: if_splits prod.splits sum.splits)
      then have "b \<in> set (accounts s) \<or> b = doc ?u"
        using save_accounts by blast
      with assms a(2) pw show "P (password b)" by auto
    qed
  qed
qed

lemma changePassword_passwords:
  assumes "\<forall>a \<in> set (accounts s). P (password a)"
    and "P (hashPw sch (fresh_salt e) (cp_newPassword dto))"
  shows "\<forall>a \<in> set (accounts (snd (changePassword e sch i dto s))). P (password a)"
proof (cases "findByUserId e i s")
  case (Pair r s1)
  show ?thesis
  proof (cases r)
    case (Inl err)
    with Pair assms show ?thesis
      by (auto simp add: changePassword_def findByUserId_def split: sum.splits option.splits)
  next
    case (Inr u0)
    with Pair obtain a where a: "s1 = s" "a \<in> set (accounts s)" "u0 = hydrate a"
      using findByUserId_Inr by blast
    let ?u = "set_password e sch (cp_newPassword dto) u0"
    have pw: "password (doc ?u) = hashPw sch (fresh_salt e) (cp_newPassword dto)"
      by (simp add: set_password_def set_path_def)
    show ?thesis
    proof
      fix b assume "b \<in> set (accounts (snd (changePassword e sch i dto s)))"
      then have "b \<in> set (accounts s) \<or> b \<in> set (accounts (snd (save e ?u s)))"
        using Pair Inr a(1)
        by (auto simp add: changePassword_def Let_def split: if_splits prod.splits sum.splits)
      then have "b \<in> set (accounts s) \<or> b = doc ?u"
        using save_accounts by blast
      with assms pw show "P (password b)" by auto
    qed
  qed
qed

lemma demo_scheme_no_fixed_point: "\<forall>salt plain. hashPw demo_scheme salt plain \<noteq> plain"
proof (intro allI notI)
  fix salt plain :: string
  assume "hashPw demo_scheme salt plain = plain"
  then have "length (''$'' @ salt @ ''$'' @ plain) = length plain"
    by (simp add: demo_scheme_def)
  then show False by simp
qed

section \<open>Properties of the service\<close>

subsection \<open>Failed logins at the HTTP boundary\<close>

text \<open>
  Claim C1, as stated, fails. For an unknown username \<open>verify\<close> throws "User not found.",
  for a known username with a wrong password it throws "Incorrect password.", and
  \<open>AuthContoller.authorize\<close> puts \<open>err.message\<close> into the \<open>BadRequestException\<close> it
  throws (part_000, lines 62-64). On a store holding the account of alice, the two
  failures give responses with different content.
\<close>

theorem authorize_failures_distinguishable:
  "fst (verify demo_env demo_scheme \<lparr>a_username = ''bob'', a_password = ''wrong''\<rparr> demo_store)
     = Inl UserNotFound \<and>
   fst (verify demo_env demo_scheme \<lparr>a_username = ''alice'', a_password = ''wrong''\<rparr> demo_store)
     = Inl InvalidCredentials \<and>
   fst (authorize demo_token demo_env demo_scheme
          \<lparr>a_username = ''bob'', a_password = ''wrong''\<rparr> demo_store)
     = BadRequestException ''User not found.'' \<and>
   fst (authorize demo_token demo_env demo_scheme
          \<lparr>a_username = ''alice'', a_password = ''wrong''\<rparr> demo_store)
     = BadRequestException ''Incorrect password.'' \<and>
   fst (authorize demo_token demo_env demo_scheme
          \<lparr>a_username = ''bob'', a_password = ''wrong''\<rparr> demo_store)
     \<noteq> fst (authorize demo_token demo_env demo_scheme
          \<lparr>a_username = ''alice'', a_password = ''wrong''\<rparr> demo_store)"
  by (simp add: authorize_def verify_def find_username_def comparePassword_def hydrate_def
        demo_env_def demo_scheme_def demo_store_def alice_def)

text \<open>
  Claim C1, amended. When the query is answered, the two failure cases of \<open>verify\<close>
  surface at the HTTP boundary in the same class and shape, a \<open>BadRequestException\<close>
  (status 400) carrying the message of the error, and leave the store unchanged; the
  message is "User not found." for an unknown username and "Incorrect password." for a
  known username with a wrong password.
\<close>

theorem authorize_failures_bad_request:
  assumes "query_fault e = None"
  shows "(find (\<lambda>a. username a = a_username dto) (accounts s) = None \<longrightarrow>
            authorize tok e sch dto s = (BadRequestException ''User not found.'', s) \<and>
            status (fst (authorize tok e sch dto s)) = 400) \<and>
         (\<forall>a. find (\<lambda>a. username a = a_username dto) (accounts s) = Some a \<and>
              \<not> comparePw sch (a_password dto) (password a) \<longrightarrow>
            authorize tok e sch dto s = (BadRequestException ''Incorrect password.'', s) \<and>
            status (fst (authorize tok e sch dto s)) = 400)"
  using assms
  by (simp add: authorize_def verify_def find_username_first comparePassword_def hydrate_def)

theorem authorize_failures_bad_request_witness:
  "authorize demo_token demo_env demo_scheme
     \<lparr>a_username = ''bob'', a_password = ''wrong''\<rparr> demo_store
     = (BadRequestException ''User not found.'', demo_store) \<and>
   authorize demo_token demo_env demo_scheme
     \<lparr>a_username = ''alice'', a_password = ''wrong''\<rparr> demo_store
     = (BadRequestException ''Incorrect password.'', demo_store)"
  using authorize_failures_bad_request [of demo_env
      "\<lparr>a_username = ''bob'', a_password = ''wrong''\<rparr>" demo_store demo_token demo_scheme]
    authorize_failures_bad_request [of demo_env
      "\<lparr>a_username = ''alice'', a_password = ''wrong''\<rparr>" demo_store demo_token demo_scheme]
  by (simp add: demo_env_def demo_scheme_def demo_store_def alice_def)

subsection \<open>Updating a profile with the stored values\<close>

text \<open>
  Claim C2. For every existing account (the load by identifier is answered with it),
  \<open>updateProfile\<close> called with username, firstName and lastName all equal to the stored
  values returns \<open>updated = False\<close> and leaves the store exactly as it was: no save is
  issued and no account changes.
\<close>

theorem updateProfile_same_values_no_write:
  assumes "query_fault e = None"
    and "find (\<lambda>a. acc_id a = i) (accounts s) = Some a"
    and "p_username dto = username a"
    and "p_firstName dto = firstName a"
    and "p_lastName dto = lastName a"
  shows "updateProfile e i dto s = (Inr \<lparr>updated = False\<rparr>, s)"
  using assms by (rule updateProfile_unchanged)

theorem updateProfile_same_values_no_write_witness:
  "updateProfile demo_env ''1''
     \<lparr>p_username = ''alice'', p_firstName = ''Alice'', p_lastName = ''Smith''\<rparr> demo_store
   = (Inr \<lparr>updated = False\<rparr>, demo_store)"
  by (rule updateProfile_same_values_no_write [where a = alice])
     (simp_all add: demo_env_def demo_store_def alice_def)

subsection \<open>When updateProfile reports an update\<close>

text \<open>
  Claim C3, as stated, fails: an assignment of the value a loaded document already holds
  does not mark the path as modified, so \<open>isModified\<close> is false after three such
  assignments. On the account of alice, \<open>updateProfile\<close> with her stored values reports
  \<open>updated = False\<close> and issues no save.
\<close>

theorem updateProfile_always_updated_counterexample:
  "fst (updateProfile demo_env ''1''
     \<lparr>p_username = ''alice'', p_firstName = ''Alice'', p_lastName = ''Smith''\<rparr> demo_store)
     = Inr \<lparr>updated = False\<rparr> \<and>
   fst (updateProfile demo_env ''1''
     \<lparr>p_username = ''alice'', p_firstName = ''Alice'', p_lastName = ''Smith''\<rparr> demo_store)
     \<noteq> Inr \<lparr>updated = True\<rparr> \<and>
   saveCalls (snd (updateProfile demo_env ''1''
     \<lparr>p_username = ''alice'', p_firstName = ''Alice'', p_lastName = ''Smith''\<rparr> demo_store))
     = saveCalls demo_store"
  by (simp add: updateProfile_def findByUserId_def findById_def set_path_def shouldModify_def
        isModified_def hydrate_def demo_env_def demo_store_def alice_def)

text \<open>
  Claim C3, amended. In \<open>updateProfile\<close> on an existing account the dirty-check counts an
  assignment as a modification exactly when the assigned value differs from the stored
  one. A save is issued exactly when at least one of the three fields differs; every
  result the call returns carries \<open>updated\<close> equal to that; and when the store does not
  fail the save (no failure of its own, no other account with the new username) the call
  returns that result.
\<close>

theorem updateProfile_writes_iff_changed:
  assumes "query_fault e = None"
    and "find (\<lambda>a. acc_id a = i) (accounts s) = Some a"
  shows "saveCalls (snd (updateProfile e i dto s)) =
           (if profile_differs dto a then Suc (saveCalls s) else saveCalls s) \<and>
         (\<forall>res. fst (updateProfile e i dto s) = Inr res
            \<longrightarrow> updated res = profile_differs dto a) \<and>
         (save_fault e = None \<and>
          \<not> (\<exists>b \<in> set (accounts s). acc_id b \<noteq> i \<and> username b = p_username dto)
            \<longrightarrow> fst (updateProfile e i dto s) = Inr \<lparr>updated = profile_differs dto a\<rparr>)"
proof (cases "profile_differs dto a")
  case False
  then have "updateProfile e i dto s = (Inr \<lparr>updated = False\<rparr>, s)"
    using assms by (intro updateProfile_unchanged) (simp_all add: profile_differs_def)
  with False show ?thesis by simp
next
  case True
  let ?u = "set_path LastName (p_lastName dto) (set_path FirstName (p_firstName dto)
              (set_path Username (p_username dto) (hydrate a)))"
  have r: "updateProfile e i dto s =
     (case save e ?u s of
        (Inl f, s2) \<Rightarrow> (Inl (StoreError f), s2)
      | (Inr u4, s2) \<Rightarrow> (Inr \<lparr>updated = True\<rparr>, s2))"
    using assms True by (rule updateProfile_changed)
  have snd_r: "snd (updateProfile e i dto s) = snd (save e ?u s)"
    by (simp add: r split: prod.splits sum.splits)
  have id_a: "acc_id a = i"
    using find_Some_mem [OF assms(2)] by simp
  have u_facts: "isNew ?u = False" "acc_id (doc ?u) = i" "username (doc ?u) = p_username dto"
    by (simp_all add: set_path_def hydrate_def id_a)
  have ok: "fst (updateProfile e i dto s) = Inr \<lparr>updated = True\<rparr>"
    if "save_fault e = None"
      and "\<not> (\<exists>b \<in> set (accounts s). acc_id b \<noteq> i \<and> username b = p_username dto)"
    using that by (simp add: r save_def Let_def u_facts)
  have flag: "updated res = True" if "fst (updateProfile e i dto s) = Inr res" for res
    using that by (auto simp add: r split: prod.splits sum.splits)
  show ?thesis
    using True ok flag by (simp add: snd_r save_counts)
qed

theorem updateProfile_writes_iff_changed_witness:
  "fst (updateProfile demo_env ''1''
     \<lparr>p_username = ''alice'', p_firstName = ''Alice'', p_lastName = ''Jones''\<rparr> demo_store)
     = Inr \<lparr>updated = True\<rparr> \<and>
   saveCalls (snd (updateProfile demo_env ''1''
     \<lparr>p_username = ''alice'', p_firstName = ''Alice'', p_lastName = ''Jones''\<rparr> demo_store))
     = 1 \<and>
   fst (updateProfile demo_env ''1''
     \<lparr>p_username = ''alice'', p_firstName = ''Alice'', p_lastName = ''Smith''\<rparr> demo_store)
     = Inr \<lparr>updated = False\<rparr>"
  using updateProfile_writes_iff_changed [of demo_env "''1''" demo_store alice
      "\<lparr>p_username = ''alice'', p_firstName = ''Alice'', p_lastName = ''Jones''\<rparr>"]
    updateProfile_writes_iff_changed [of demo_env "''1''" demo_store alice
      "\<lparr>p_username = ''alice'', p_firstName = ''Alice'', p_lastName = ''Smith''\<rparr>"]
  by (simp add: demo_env_def demo_store_def alice_def profile_differs_def)

subsection \<open>Changing a password with the wrong current password\<close>

text \<open>
  Claim C4. For every existing account (the load by identifier is answered with it),
  \<open>changePassword\<close> called with a current password that the comparison rejects fails
  with \<open>InvalidCredentials\<close> ("Incorrect password."), and the store is left exactly as it
  was: no account changes and no save is issued.
\<close>

theorem changePassword_wrong_password_rejected:
  assumes "query_fault e = None"
    and "find (\<lambda>a. acc_id a = i) (accounts s) = Some a"
    and "\<not> comparePw sch (cp_password dto) (password a)"
  shows "changePassword e sch i dto s = (Inl InvalidCredentials, s)"
  using assms
  by (simp add: changePassword_def findByUserId_found comparePassword_def hydrate_def)

theorem changePassword_wrong_password_rejected_witness:
  "changePassword demo_env demo_scheme ''1''
     \<lparr>cp_password = ''guess'', cp_newPassword = ''other''\<rparr> demo_store
   = (Inl InvalidCredentials, demo_store)"
  by (rule changePassword_wrong_password_rejected [where a = alice])
     (simp_all add: demo_env_def demo_scheme_def demo_store_def alice_def)

subsection \<open>Changing a password with the correct current password\<close>

text \<open>
  Claim C5. For every existing account, \<open>changePassword\<close> called with a current password
  that the comparison accepts returns \<open>updated = True\<close> and issues a save, whatever the new
  password is (there is no dirty-check on this path); when the store does not fail the
  save, the stored password of the account is afterwards the hash of \<open>newPassword\<close> under
  the fresh salt, and nothing else of the account, and no other account, has changed.
\<close>

theorem changePassword_correct_password_persists:
  assumes "query_fault e = None"
    and "save_fault e = None"
    and "find (\<lambda>a. acc_id a = i) (accounts s) = Some a"
    and "comparePw sch (cp_password dto) (password a)"
  shows "fst (changePassword e sch i dto s) = Inr \<lparr>updated = True\<rparr> \<and>
         saveCalls (snd (changePassword e sch i dto s)) = Suc (saveCalls s) \<and>
         find (\<lambda>b. acc_id b = i) (accounts (snd (changePassword e sch i dto s))) =
           Some (a\<lparr>password := hashPw sch (fresh_salt e) (cp_newPassword dto)\<rparr>) \<and>
         accounts (snd (changePassword e sch i dto s)) =
           map (\<lambda>b. if acc_id b = i
                     then a\<lparr>password := hashPw sch (fresh_salt e) (cp_newPassword dto)\<rparr>
                     else b) (accounts s)"
proof -
  let ?a' = "a\<lparr>password := hashPw sch (fresh_salt e) (cp_newPassword dto)\<rparr>"
  let ?u = "set_password e sch (cp_newPassword dto) (hydrate a)"
  have id_a: "acc_id a = i"
    using find_Some_mem [OF assms(3)] by simp
  have u_facts: "\<not> isNew ?u" "Username \<notin> modifiedPaths ?u" "doc ?u = ?a'"
    by (simp_all add: set_password_def set_path_def hydrate_def)
  have r: "changePassword e sch i dto s =
      (Inr \<lparr>updated = True\<rparr>,
       s\<lparr>saveCalls := Suc (saveCalls s),
         accounts := map (\<lambda>b. if acc_id b = i then ?a' else b) (accounts s)\<rparr>)"
    using assms(1,3,4)
    by (simp add: changePassword_def findByUserId_found comparePassword_def
          save_loaded [OF assms(2) u_facts(1,2)] u_facts(3) id_a)
       (simp add: hydrate_def)
  have "find (\<lambda>b. acc_id b = i) (map (\<lambda>b. if acc_id b = i then ?a' else b) (accounts s))
          = Some ?a'"
    using assms(3) by (rule find_map_replace) (simp add: id_a)
  then show ?thesis by (simp add: r)
qed

theorem changePassword_correct_password_persists_witness:
  "fst (changePassword demo_env demo_scheme ''1''
          \<lparr>cp_password = ''secret'', cp_newPassword = ''secret''\<rparr> demo_store)
     = Inr \<lparr>updated = True\<rparr> \<and>
   saveCalls (snd (changePassword demo_env demo_scheme ''1''
          \<lparr>cp_password = ''secret'', cp_newPassword = ''secret''\<rparr> demo_store)) = 1 \<and>
   accounts (snd (changePassword demo_env demo_scheme ''1''
          \<lparr>cp_password = ''secret'', cp_newPassword = ''secret''\<rparr> demo_store))
     = [alice\<lparr>password := ''$s2$secret''\<rparr>]"
  using changePassword_correct_password_persists [of demo_env "''1''" demo_store alice
      demo_scheme "\<lparr>cp_password = ''secret'', cp_newPassword = ''secret''\<rparr>"]
  by (simp add: demo_env_def demo_scheme_def demo_store_def alice_def)

subsection \<open>Stored passwords are hashes\<close>

text \<open>
  Claim C6. In every store the service can reach from an empty collection by \<open>create\<close>,
  \<open>updateProfile\<close> and \<open>changePassword\<close>, the password field of every account is the
  salted hash of some plaintext, and is not that plaintext. The hash is a parameter; it is
  assumed never to return its own input.
\<close>

theorem reachable_passwords_hashed:
  assumes "reachable sch s"
    and "\<forall>salt plain. hashPw sch salt plain \<noteq> plain"
  shows "\<forall>a \<in> set (accounts s).
           \<exists>salt plain. password a = hashPw sch salt plain \<and> password a \<noteq> plain"
  using assms(1)
proof (induction rule: reachable.induct)
  case initial
  show ?case by simp
next
  case (after_create s e dto)
  have "\<exists>salt plain. hashPw sch (fresh_salt e) (c_password dto) = hashPw sch salt plain \<and>
          hashPw sch (fresh_salt e) (c_password dto) \<noteq> plain"
    using assms(2) by blast
  with after_create.IH show ?case by (rule create_passwords)
next
  case (after_updateProfile s e i pdto)
  from after_updateProfile.IH show ?case by (rule updateProfile_passwords)
next
  case (after_changePassword s e i cdto)
  have "\<exists>salt plain. hashPw sch (fresh_salt e) (cp_newPassword cdto) = hashPw sch salt plain \<and>
          hashPw sch (fresh_salt e) (cp_newPassword cdto) \<noteq> plain"
    using assms(2) by blast
  with after_changePassword.IH show ?case by (rule changePassword_passwords)
qed

theorem reachable_passwords_hashed_witness:
  "accounts (snd (create (demo_env\<lparr>fresh_id := ''1'', fresh_salt := ''s1''\<rparr>) demo_scheme
       \<lparr>c_username = ''alice'', c_password = ''secret'', c_firstName = ''Alice'',
         c_lastName = ''Smith''\<rparr> \<lparr>accounts = [], saveCalls = 0\<rparr>)) = [alice] \<and>
   (\<exists>salt plain. password alice = hashPw demo_scheme salt plain \<and> password alice \<noteq> plain)"
proof -
  let ?s = "snd (create (demo_env\<lparr>fresh_id := ''1'', fresh_salt := ''s1''\<rparr>) demo_scheme
       \<lparr>c_username = ''alice'', c_password = ''secret'', c_firstName = ''Alice'',
         c_lastName = ''Smith''\<rparr> \<lparr>accounts = [], saveCalls = 0\<rparr>)"
  have acc: "accounts ?s = [alice]"
    by (simp add: create_def save_def new_user_def set_password_def set_path_def
          shouldModify_def demo_env_def demo_scheme_def alice_def)
  have "reachable demo_scheme ?s"
    by (rule after_create [OF initial])
  then have "\<forall>a \<in> set (accounts ?s).
      \<exists>salt plain. password a = hashPw demo_scheme salt plain \<and> password a \<noteq> plain"
    using demo_scheme_no_fixed_point by (rule reachable_passwords_hashed)
  with acc show ?thesis by simp
qed

subsection \<open>Verifying correct credentials\<close>

text \<open>
  Claim C7. \<open>verify\<close> never changes the store, whatever its input and outcome. When the
  username has a matching account and the comparison accepts the password, it returns
  that account as the query loaded it: the stored field values, nothing marked as modified.
\<close>

theorem verify_success_read_only:
  "snd (verify e sch dto s) = s \<and>
   (query_fault e = None \<and>
    find (\<lambda>a. username a = a_username dto) (accounts s) = Some a \<and>
    comparePw sch (a_password dto) (password a)
      \<longrightarrow> fst (verify e sch dto s) = Inr (hydrate a))"
  by (simp add: verify_store)
     (simp add: verify_def find_username_first comparePassword_def hydrate_def)

theorem verify_success_read_only_witness:
  "verify demo_env demo_scheme \<lparr>a_username = ''alice'', a_password = ''secret''\<rparr> demo_store
     = (Inr (hydrate alice), demo_store)"
  using verify_success_read_only [of demo_env demo_scheme
      "\<lparr>a_username = ''alice'', a_password = ''secret''\<rparr>" demo_store alice]
  by (simp add: demo_env_def demo_scheme_def demo_store_def alice_def prod_eq_iff)

subsection \<open>Checking whether a username exists\<close>

text \<open>
  Claim C8. \<open>checkIfExists\<close> leaves the store as it is and never fails with an error of
  the service: the only failure is a failure of the query itself. When the query is
  answered, the result is \<open>existing = True\<close> exactly when some account has exactly that
  username, and \<open>existing = False\<close> when none has.
\<close>

theorem checkIfExists_reports_existence:
  "snd (checkIfExists e u s) = s \<and>
   (\<forall>err. fst (checkIfExists e u s) = Inl err \<longrightarrow> \<not> is_domain_error err) \<and>
   (query_fault e = None \<longrightarrow>
      fst (checkIfExists e u s) =
        Inr \<lparr>existing = (\<exists>a \<in> set (accounts s). username a = u)\<rparr>)"
proof (cases "query_fault e")
  case None
  have "(find (\<lambda>a. username a = u) (accounts s) = None) =
        (\<not> (\<exists>a \<in> set (accounts s). username a = u))"
    by (rule find_None_iff_Bex)
  with None show ?thesis
    by (cases "find (\<lambda>a. username a = u) (accounts s)")
       (simp_all add: checkIfExists_def find_username_first)
next
  case (Some f)
  then show ?thesis by (simp add: checkIfExists_def find_username_def)
qed

theorem checkIfExists_reports_existence_witness:
  "fst (checkIfExists demo_env ''alice'' demo_store) = Inr \<lparr>existing = True\<rparr> \<and>
   fst (checkIfExists demo_env ''bob'' demo_store) = Inr \<lparr>existing = False\<rparr> \<and>
   fst (checkIfExists (demo_env\<lparr>query_fault := Some (Unavailable ''down'')\<rparr>) ''bob''
          demo_store)
     = Inl (StoreError (Unavailable ''down'')) \<and>
   \<not> is_domain_error (StoreError (Unavailable ''down''))"
  using checkIfExists_reports_existence [of demo_env "''alice''" demo_store]
    checkIfExists_reports_existence [of demo_env "''bob''" demo_store]
    checkIfExists_reports_existence
      [of "demo_env\<lparr>query_fault := Some (Unavailable ''down'')\<rparr>" "''bob''" demo_store]
  by (simp add: demo_env_def demo_store_def alice_def checkIfExists_def find_username_def)

subsection \<open>Registering a username that exists\<close>

text \<open>
  Claim C9. In every store holding an account with username \<open>u\<close>, \<open>create\<close> with username
  \<open>u\<close> fails with \<open>AlreadyExists\<close>, under every environment, and the accounts of the store
  are afterwards what they were: the existing account is not modified.
\<close>

theorem create_existing_username_fails:
  assumes "\<exists>a \<in> set (accounts s). username a = c_username dto"
  shows "fst (create e sch dto s) = Inl AlreadyExists \<and>
         accounts (snd (create e sch dto s)) = accounts s"
proof (cases "save_fault e")
  case None
  with assms show ?thesis
    by (auto simp add: create_def save_def Let_def new_user_facts)
next
  case (Some f)
  then show ?thesis by (simp add: create_def save_def Let_def)
qed

theorem create_existing_username_fails_witness:
  "fst (create demo_env demo_scheme
          \<lparr>c_username = ''alice'', c_password = ''pw'', c_firstName = ''Al'', c_lastName = ''Ice''\<rparr>
          demo_store) = Inl AlreadyExists \<and>
   accounts (snd (create demo_env demo_scheme
          \<lparr>c_username = ''alice'', c_password = ''pw'', c_firstName = ''Al'', c_lastName = ''Ice''\<rparr>
          demo_store)) = [alice]"
  using create_existing_username_fails [of demo_store
      "\<lparr>c_username = ''alice'', c_password = ''pw'', c_firstName = ''Al'', c_lastName = ''Ice''\<rparr>"
      demo_env demo_scheme]
  by (simp add: demo_store_def alice_def)

subsection \<open>Every failed save is reported as an existing user\<close>

text \<open>
  Claim C10. \<open>create\<close> fails with \<open>AlreadyExists\<close> exactly when the save of the new
  document failed, whatever the cause: every failure of the save gives the error with
  the message "User already exists.", and \<open>create\<close> fails with no other error.
\<close>

theorem create_already_exists_iff_save_failed:
  "(fst (create e sch dto s) = Inl AlreadyExists) =
     (\<exists>f. fst (save e (new_user e sch dto) s) = Inl f) \<and>
   (\<forall>f. fst (save e (new_user e sch dto) s) = Inl f
      \<longrightarrow> map_sum message id (fst (create e sch dto s)) = Inl ''User already exists.'') \<and>
   (\<forall>err. fst (create e sch dto s) = Inl err \<longrightarrow> err = AlreadyExists)"
  by (cases "save e (new_user e sch dto) s"; cases "fst (save e (new_user e sch dto) s)")
     (simp_all add: create_def)

theorem create_already_exists_iff_save_failed_witness:
  "fst (create (demo_env\<lparr>save_fault := Some (Unavailable ''connection lost'')\<rparr>)
          demo_scheme
          \<lparr>c_username = ''bob'', c_password = ''pw'', c_firstName = ''Bob'', c_lastName = ''Ross''\<rparr>
          demo_store) = Inl AlreadyExists \<and>
   \<not> (\<exists>a \<in> set (accounts demo_store). username a = ''bob'') \<and>
   fst (create demo_env demo_scheme
          \<lparr>c_username = ''bob'', c_password = ''pw'', c_firstName = ''Bob'', c_lastName = ''Ross''\<rparr>
          demo_store) \<noteq> Inl AlreadyExists"
  using create_already_exists_iff_save_failed
      [of "demo_env\<lparr>save_fault := Some (Unavailable ''connection lost'')\<rparr>"
        demo_scheme
        "\<lparr>c_username = ''bob'', c_password = ''pw'', c_firstName = ''Bob'', c_lastName = ''Ross''\<rparr>"
        demo_store]
    create_already_exists_iff_save_failed
      [of demo_env demo_scheme
        "\<lparr>c_username = ''bob'', c_password = ''pw'', c_firstName = ''Bob'', c_lastName = ''Ross''\<rparr>"
        demo_store]
  by (simp add: save_def new_user_def set_password_def set_path_def shouldModify_def
        demo_env_def demo_store_def alice_def)

end
